theory Spec2Isabelle
  imports Main "HOL-Library.Char_ord" "HOL-Library.List_Lexorder" "HOL-Library.Sublist"
begin

section \<open>Progress reconciliation (src/lib/anilist.js, updateAnilistProgress)\<close>

text \<open>
  \<^verbatim>\<open>getAnilistMediaListEntry\<close> yields \<^verbatim>\<open>null\<close>, \<^verbatim>\<open>{ notFound: true }\<close> or an object with
  the four fields below. \<^verbatim>\<open>currentStatus\<close> and \<^verbatim>\<open>totalEpisodes\<close> may be
  \<^verbatim>\<open>null\<close>/\<^verbatim>\<open>undefined\<close>, which is \<open>None\<close> here.
\<close>

record entryFields =
  currentProgress :: int
  currentStatus :: "string option"
  totalEpisodes :: "int option"
  isMovie :: bool

datatype currentEntryData = NotFound | Found entryFields

text \<open>
  What one call does towards the remote list: nothing, a \<^verbatim>\<open>SaveMediaListEntry\<close> mutation
  with its three variables (issued after \<^verbatim>\<open>cache.clear()\<close>), or a \<^verbatim>\<open>ReferenceError\<close>
  raised while the variables object is built.
\<close>

datatype action =
    NoWrite
  | ReferenceError
  | SaveMediaListEntry int int string

text \<open>JavaScript truthiness of a string that may be \<^verbatim>\<open>null\<close> or \<^verbatim>\<open>undefined\<close>.\<close>

definition truthy_str :: "string option \<Rightarrow> bool" where
  "truthy_str s = (case s of None \<Rightarrow> False | Some v \<Rightarrow> v \<noteq> [])"

text \<open>
  \<^verbatim>\<open>newStatus\<close> is assigned in the function without any declaration, so in a CommonJS
  module (sloppy mode) it is a property of the global object: it does not exist until the
  first assignment (\<open>None\<close>), and afterwards keeps its value from one call to the next.
  The first argument is that global before the call, the second component of the result is
  the global after it.

  \<^verbatim>\<open>
  if (isMovie || (totalEpisodes != null && newProgress >= totalEpisodes)) {
    newStatus = "COMPLETED";
  } else if (currentStatus) {
    if (currentStatus !== "CURRENT") { newStatus = currentStatus; }
  }
  \<close>
\<close>

definition assignStatus :: "string option \<Rightarrow> entryFields \<Rightarrow> int \<Rightarrow> string option" where
  "assignStatus g e newProgress =
     (if isMovie e \<or> (case totalEpisodes e of None \<Rightarrow> False | Some t \<Rightarrow> newProgress \<ge> t)
      then Some ''COMPLETED''
      else if truthy_str (currentStatus e)
        then (if currentStatus e \<noteq> Some ''CURRENT'' then currentStatus e else g)
        else g)"

text \<open>
  \<^verbatim>\<open>
  if (currentStatus === "COMPLETED" && newStatus !== "COMPLETED") { newStatus = "CURRENT"; }
  \<close>
  \<^verbatim>\<open>&&\<close> reads \<^verbatim>\<open>newStatus\<close> only when the left operand holds; reading a global that
  was never assigned raises \<^verbatim>\<open>ReferenceError\<close> (\<open>Inl ()\<close>).
\<close>

definition demoteStatus :: "string option \<Rightarrow> entryFields \<Rightarrow> unit + string option" where
  "demoteStatus g e =
     (if currentStatus e = Some ''COMPLETED''
      then (case g of
              None \<Rightarrow> Inl ()
            | Some s \<Rightarrow> if s \<noteq> ''COMPLETED'' then Inr (Some ''CURRENT'') else Inr g)
      else Inr g)"

definition updateAnilistProgress ::
  "string option \<Rightarrow> int \<Rightarrow> int \<Rightarrow> currentEntryData option \<Rightarrow> action \<times> string option" where
  "updateAnilistProgress g mediaId targetEpisode currentEntry =
     (case currentEntry of
        None \<Rightarrow> (NoWrite, g)
      | Some NotFound \<Rightarrow> (NoWrite, g)
      | Some (Found e) \<Rightarrow>
          (let newProgress = (if isMovie e then 1 else targetEpisode) in
           if currentProgress e \<ge> newProgress then (NoWrite, g)
           else if \<not> isMovie e \<and>
                   (case totalEpisodes e of None \<Rightarrow> False | Some t \<Rightarrow> newProgress > t)
             then (NoWrite, g)
           else
             (let g1 = assignStatus g e newProgress in
              case demoteStatus g1 e of
                Inl _ \<Rightarrow> (ReferenceError, g1)
              | Inr g2 \<Rightarrow>
                  (case g2 of
                     None \<Rightarrow> (ReferenceError, g2)
                   | Some s \<Rightarrow> (SaveMediaListEntry mediaId newProgress s, g2)))))"

text \<open>The target progress of step 4: 1 for a single-unit work, else the observed episode.\<close>

definition targetProgress :: "entryFields \<Rightarrow> int \<Rightarrow> int" where
  "targetProgress e targetEpisode = (if isMovie e then 1 else targetEpisode)"

section \<open>Logo selection (src/lib/anilist.js, logoUrl)\<close>








section \<open>Cache keys (src/lib/anilist.js, getCacheKey)\<close>

text \<open>
  The values that reach \<^verbatim>\<open>JSON.stringify\<close> here: GraphQL variables hold numbers (integer
  ids and page numbers), strings, arrays of them and possibly \<^verbatim>\<open>null\<close> or \<^verbatim>\<open>undefined\<close>.
  An object is the list of its own enumerable properties in the order the engine
  enumerates them; its keys are distinct.
\<close>

datatype json =
    JUndefined
  | JNull
  | JBool bool
  | JNum int
  | JStr string
  | JArr "json list"
  | JObj "(string \<times> json) list"

text \<open>
  \<^verbatim>\<open>QuoteJSONString\<close> of the language standard: the quote and the backslash are escaped,
  the control characters below 0x20 are written as a short escape or as a four-digit
  hexadecimal escape, every
  other character stands for itself.
\<close>

definition hexDigit :: "nat \<Rightarrow> char" where
  "hexDigit n = (''0123456789abcdef'' ! (n mod 16))"

definition quoteChar :: "char \<Rightarrow> string" where
  "quoteChar c =
     (if c = CHR 0x22 then [CHR 0x5C, CHR 0x22]
      else if c = CHR 0x5C then [CHR 0x5C, CHR 0x5C]
      else if c = CHR 0x08 then [CHR 0x5C, CHR ''b'']
      else if c = CHR 0x0C then [CHR 0x5C, CHR ''f'']
      else if c = CHR 0x0A then [CHR 0x5C, CHR ''n'']
      else if c = CHR 0x0D then [CHR 0x5C, CHR ''r'']
      else if c = CHR 0x09 then [CHR 0x5C, CHR ''t'']
      else if (of_char c :: nat) < 0x20
        then [CHR 0x5C, CHR ''u'', CHR ''0'', CHR ''0'',
              hexDigit (of_char c div 16), hexDigit (of_char c)]
      else [c])"

definition quoteJSONString :: "string \<Rightarrow> string" where
  "quoteJSONString s = [CHR 0x22] @ concat (map quoteChar s) @ [CHR 0x22]"

text \<open>An integral number is written in decimal.\<close>

fun digits :: "nat \<Rightarrow> string" where
  "digits n = (if n < 10 then [hexDigit n] else digits (n div 10) @ [hexDigit (n mod 10)])"

declare digits.simps [simp del]

definition numberToString :: "int \<Rightarrow> string" where
  "numberToString i = (if i < 0 then ''-'' @ digits (nat (- i)) else digits (nat i))"

fun joinComma :: "string list \<Rightarrow> string" where
  "joinComma [] = []"
| "joinComma [x] = x"
| "joinComma (x # y # ys) = x @ '','' @ joinComma (y # ys)"

text \<open>
  \<^verbatim>\<open>JSON.stringify(value, replacer)\<close> with an array as replacer: the array, without
  repetitions, is the list of property names that is written for every object, at every
  depth, in the array's order. Without a replacer an object's own keys are written in
  their own order.
\<close>

definition propertyList :: "string list option \<Rightarrow> (string \<times> 'a) list \<Rightarrow> string list" where
  "propertyList replacer kvs =
     (case replacer of None \<Rightarrow> map fst kvs | Some wl \<Rightarrow> rev (remdups (rev wl)))"

text \<open>
  One property of an object: it is written when the object has it and its value is not
  \<^verbatim>\<open>undefined\<close>.
\<close>

definition member :: "(string \<times> string option) list \<Rightarrow> string \<Rightarrow> string list" where
  "member strs k =
     (case map_of strs k of
        Some (Some t) \<Rightarrow> [quoteJSONString k @ '':'' @ t]
      | _ \<Rightarrow> [])"

text \<open>
  \<^verbatim>\<open>SerializeJSONProperty\<close>. An \<^verbatim>\<open>undefined\<close> element of an array is written as
  \<^verbatim>\<open>null\<close>; at the top level this program only passes objects.
\<close>

fun serializeJSON :: "string list option \<Rightarrow> json \<Rightarrow> string" where
  "serializeJSON replacer JUndefined = ''null''"
| "serializeJSON replacer JNull = ''null''"
| "serializeJSON replacer (JBool b) = (if b then ''true'' else ''false'')"
| "serializeJSON replacer (JNum i) = numberToString i"
| "serializeJSON replacer (JStr s) = quoteJSONString s"
| "serializeJSON replacer (JArr xs) = ''['' @ joinComma (map (serializeJSON replacer) xs) @ '']''"
| "serializeJSON replacer (JObj kvs) =
     (let strs = map (\<lambda>kv. (fst kv, if snd kv = JUndefined then None
                                     else Some (serializeJSON replacer (snd kv)))) kvs
      in ''{'' @ joinComma (concat (map (member strs) (propertyList replacer kvs))) @ ''}'')"

text \<open>
  \<^verbatim>\<open>
  function getCacheKey(query, variables) {
    const sortedVars = variables
      ? JSON.stringify(variables, Object.keys(variables).sort())
      : "";
    return JSON.stringify({ query, variables: sortedVars });
  }
  \<close>
  \<^verbatim>\<open>variables\<close> is an object, or \<^verbatim>\<open>undefined\<close>/\<^verbatim>\<open>null\<close> (\<open>None\<close>). \<^verbatim>\<open>sort()\<close> without a
  comparator orders strings by their code units, which is the lexicographic order of
  \<open>string\<close>.
\<close>

definition getCacheKey :: "string \<Rightarrow> (string \<times> json) list option \<Rightarrow> string" where
  "getCacheKey query variables =
     (let sortedVars =
            (case variables of
               None \<Rightarrow> []
             | Some kvs \<Rightarrow> serializeJSON (Some (sort (map fst kvs))) (JObj kvs))
      in serializeJSON None (JObj [(''query'', JStr query), (''variables'', JStr sortedVars)]))"


section \<open>The durable mapping store (sqlite.js, the second file in src/lib/anilist.js)\<close>

text \<open>
  The table \<^verbatim>\<open>ids\<close>: \<^verbatim>\<open>anilist INTEGER PRIMARY KEY NOT NULL\<close> and one nullable
  \<^verbatim>\<open>UNIQUE\<close> column per alternate scheme. An alternate-scheme value is the string that
  the caller passes; \<open>None\<close> is SQL \<^verbatim>\<open>NULL\<close>. The store is the list of its rows.
\<close>

datatype column = Kitsu | Imdb | Thetvdb | Themoviedb

definition columnName :: "column \<Rightarrow> string" where
  "columnName c =
     (case c of Kitsu \<Rightarrow> ''kitsu'' | Imdb \<Rightarrow> ''imdb''
      | Thetvdb \<Rightarrow> ''thetvdb'' | Themoviedb \<Rightarrow> ''themoviedb'')"

text \<open>\<^verbatim>\<open>validSources.includes(source)\<close>, with the column that the name selects.\<close>

definition validSource :: "string \<Rightarrow> column option" where
  "validSource source =
     (if source = ''kitsu'' then Some Kitsu
      else if source = ''imdb'' then Some Imdb
      else if source = ''thetvdb'' then Some Thetvdb
      else if source = ''themoviedb'' then Some Themoviedb
      else None)"

record idsRow =
  anilist :: int
  kitsu :: "string option"
  imdb :: "string option"
  thetvdb :: "string option"
  themoviedb :: "string option"

definition col :: "column \<Rightarrow> idsRow \<Rightarrow> string option" where
  "col c r = (case c of Kitsu \<Rightarrow> kitsu r | Imdb \<Rightarrow> imdb r
              | Thetvdb \<Rightarrow> thetvdb r | Themoviedb \<Rightarrow> themoviedb r)"

definition setCol :: "column \<Rightarrow> string \<Rightarrow> idsRow \<Rightarrow> idsRow" where
  "setCol c x r =
     (case c of
        Kitsu \<Rightarrow> r\<lparr>kitsu := Some x\<rparr>
      | Imdb \<Rightarrow> r\<lparr>imdb := Some x\<rparr>
      | Thetvdb \<Rightarrow> r\<lparr>thetvdb := Some x\<rparr>
      | Themoviedb \<Rightarrow> r\<lparr>themoviedb := Some x\<rparr>)"

definition newRow :: "int \<Rightarrow> idsRow" where
  "newRow a = \<lparr>anilist = a, kitsu = None, imdb = None, thetvdb = None, themoviedb = None\<rparr>"

text \<open>The message of the error that SQLite raises when a \<^verbatim>\<open>UNIQUE\<close> column would repeat a value.\<close>

definition uniqueFailed :: "column \<Rightarrow> string" where
  "uniqueFailed c = ''SQLITE_CONSTRAINT: UNIQUE constraint failed: ids.'' @ columnName c"

text \<open>
  The statement of \<^verbatim>\<open>cacheToDatabase\<close>:
  \<^verbatim>\<open>
  INSERT INTO ids (anilist, ${source}) VALUES (?, ?)
  ON CONFLICT(anilist) DO UPDATE SET ${source} = excluded.${source}
  WHERE ${source} IS NULL OR ${source} != excluded.${source};
  \<close>
  Without a row for the canonical id the row is inserted, unless the alternate value is
  in use, which fails the statement. With such a row the update runs when its
  \<^verbatim>\<open>WHERE\<close> holds, and fails when another row holds the value. A failed statement
  changes nothing.
\<close>

definition runUpsert :: "column \<Rightarrow> int \<Rightarrow> string \<Rightarrow> idsRow list \<Rightarrow> string + idsRow list" where
  "runUpsert c a x t =
     (case find (\<lambda>r. anilist r = a) t of
        None \<Rightarrow>
          if \<exists>r\<in>set t. col c r = Some x then Inl (uniqueFailed c)
          else Inr (t @ [setCol c x (newRow a)])
      | Some r \<Rightarrow>
          if col c r = None \<or> col c r \<noteq> Some x
          then (if \<exists>r'\<in>set t. anilist r' \<noteq> a \<and> col c r' = Some x then Inl (uniqueFailed c)
                else Inr (map (\<lambda>r'. if anilist r' = a then setCol c x r' else r') t))
          else Inr t)"

text \<open>How a promise settles.\<close>

datatype 'a settled = Resolved 'a | Rejected string

text \<open>
  \<^verbatim>\<open>
  db.run(sql, [anilistId, externalId], function (err) {
    if (err) {
      if (err.message.includes("UNIQUE constraint failed")) { ...; resolve(); }
      else { ...; reject(err); }
    } else { resolve(); }
  });
  \<close>
  \<open>fault\<close> is an error of the database engine that does not come from the statement's
  constraints (the file cannot be written, the database is locked), with its message.
\<close>

definition cacheToDatabase ::
  "string option \<Rightarrow> int \<Rightarrow> string \<Rightarrow> string \<Rightarrow> idsRow list \<Rightarrow> unit settled \<times> idsRow list" where
  "cacheToDatabase fault anilistId externalId source t =
     (case validSource source of
        None \<Rightarrow> (Rejected ''Invalid source column'', t)
      | Some c \<Rightarrow>
          (case (case fault of Some msg \<Rightarrow> Inl msg | None \<Rightarrow> runUpsert c anilistId externalId t) of
             Inl msg \<Rightarrow>
               if sublist ''UNIQUE constraint failed'' msg then (Resolved (), t)
               else (Rejected msg, t)
           | Inr t' \<Rightarrow> (Resolved (), t')))"


text \<open>
  The constraints of the schema: the canonical id is a key, and a value of an alternate
  scheme belongs to one canonical id at most.
\<close>

definition columns :: "column list" where
  "columns = [Kitsu, Imdb, Thetvdb, Themoviedb]"

definition storeInvariant :: "idsRow list \<Rightarrow> bool" where
  "storeInvariant t =
     (distinct (map anilist t) \<and>
      (\<forall>c\<in>set columns. \<forall>r1\<in>set t. \<forall>r2\<in>set t.
         col c r1 \<noteq> None \<and> col c r1 = col c r2 \<longrightarrow> anilist r1 = anilist r2))"

section \<open>Identifier resolution (src/lib/id-mapping.js, getAnilistId)\<close>

text \<open>
  \<^verbatim>\<open>parseInt(string)\<close> without a radix: leading white space is skipped, a sign is read,
  a prefix \<^verbatim>\<open>0x\<close> selects base 16, and the longest run of digits is the value; no digit
  gives \<^verbatim>\<open>NaN\<close>. \<open>None\<close> stands for \<^verbatim>\<open>NaN\<close> and, in the results below, for \<^verbatim>\<open>null\<close> as
  well: both are falsy and no caller tells them apart. Only the white space of ASCII is
  skipped.
\<close>

definition isWhiteSpace :: "char \<Rightarrow> bool" where
  "isWhiteSpace c = (c \<in> set [CHR 0x09, CHR 0x0A, CHR 0x0B, CHR 0x0C, CHR 0x0D, CHR 0x20])"

definition digitValue :: "char \<Rightarrow> nat option" where
  "digitValue c =
     (let n = (of_char c :: nat) in
      if 48 \<le> n \<and> n \<le> 57 then Some (n - 48)
      else if 97 \<le> n \<and> n \<le> 102 then Some (n - 87)
      else if 65 \<le> n \<and> n \<le> 70 then Some (n - 55)
      else None)"

definition isDigitOf :: "nat \<Rightarrow> char \<Rightarrow> bool" where
  "isDigitOf radix c = (case digitValue c of None \<Rightarrow> False | Some d \<Rightarrow> d < radix)"

definition parseDigits :: "nat \<Rightarrow> string \<Rightarrow> nat option" where
  "parseDigits radix s =
     (let ds = takeWhile (isDigitOf radix) s in
      if ds = [] then None
      else Some (foldl (\<lambda>acc c. acc * radix + (case digitValue c of None \<Rightarrow> 0 | Some d \<Rightarrow> d)) 0 ds))"

definition parseInt :: "string \<Rightarrow> int option" where
  "parseInt s =
     (let s1 = dropWhile isWhiteSpace s;
          negative = (case s1 of [] \<Rightarrow> False | c # _ \<Rightarrow> c = CHR ''-'');
          s2 = (case s1 of [] \<Rightarrow> [] | c # r \<Rightarrow> if c = CHR ''-'' \<or> c = CHR ''+'' then r else s1);
          hex = (case s2 of c0 # cx # _ \<Rightarrow> c0 = CHR ''0'' \<and> (cx = CHR ''x'' \<or> cx = CHR ''X'')
                 | _ \<Rightarrow> False);
          magnitude = (if hex then parseDigits 16 (drop 2 s2) else parseDigits 10 s2)
      in map_option (\<lambda>n. if negative then - int n else int n) magnitude)"

text \<open>Truthiness of a number that may be \<^verbatim>\<open>null\<close>: zero is falsy.\<close>

definition truthy_num :: "int option \<Rightarrow> bool" where
  "truthy_num v = (case v of None \<Rightarrow> False | Some n \<Rightarrow> n \<noteq> 0)"


record kitsuMapping =
  externalSite :: string
  externalId :: "string option"





record idState =
  anilistIdCache :: "string \<Rightarrow> int option"
  ids :: "idsRow list"









section \<open>The request gateway (src/lib/anilist.js, limiter and makeGraphQLRequest)\<close>

text \<open>
  A number as \<^verbatim>\<open>Number(string)\<close> gives it. \<^verbatim>\<open>Retry-After\<close> carries whole seconds or a
  date; a string of decimal digits is its value, an empty one is 0, anything else is
  \<^verbatim>\<open>NaN\<close>.
\<close>

datatype jsnum = NaN | Num int


definition times :: "jsnum \<Rightarrow> int \<Rightarrow> jsnum" where
  "times x k = (case x of NaN \<Rightarrow> NaN | Num n \<Rightarrow> Num (n * k))"













section \<open>The watch-event handler (src/addon.js, defineSubtitlesHandler)\<close>

text \<open>
  A request of the host: the configuration of the installation, the identifier of the
  video (\<^verbatim>\<open>args.id\<close>) and its type (\<^verbatim>\<open>args.type\<close>). A token that is missing is
  \<open>None\<close>.
\<close>

record handlerConfig =
  token :: "string option"
  enableSearch :: bool
  preAddedOnly :: bool

record handlerArgs =
  config :: handlerConfig
  reqId :: string
  reqType :: string

text \<open>
  The functions that the handler calls, each by what a call gives: the value, or the
  error that it throws (\<open>Inl\<close>, with the message). \<open>resolveAnilistId\<close> is the
  handler's view of \<^verbatim>\<open>getAnilistId\<close>.
\<close>

record collaborators =
  resolveAnilistId :: "string \<Rightarrow> string \<Rightarrow> string + int option"
  getNameFromCinemetaId :: "string \<Rightarrow> string \<Rightarrow> string + string option"
  handleWatchedEpisode :: "string option \<Rightarrow> int option \<Rightarrow> int \<Rightarrow> bool \<Rightarrow> string \<Rightarrow> string + unit"

text \<open>What the host gets: \<^verbatim>\<open>{ subtitles: [...] }\<close> or a rejected promise.\<close>

datatype hostResponse = Subtitles "string list" | HandlerRejected string

text \<open>\<^verbatim>\<open>String.prototype.split\<close> with a separator of one character.\<close>

fun splitOn :: "char \<Rightarrow> string \<Rightarrow> string list" where
  "splitOn c [] = [[]]"
| "splitOn c (x # xs) =
     (if x = c then [] # splitOn c xs
      else (case splitOn c xs of [] \<Rightarrow> [[x]] | p # ps \<Rightarrow> (x # p) # ps))"

text \<open>An element of a destructured array: \<^verbatim>\<open>undefined\<close> beyond the end.\<close>

definition element :: "'a list \<Rightarrow> nat \<Rightarrow> 'a option" where
  "element xs i = (if i < length xs then Some (xs ! i) else None)"

text \<open>\<^verbatim>\<open>s || d\<close> for a string that may be missing.\<close>

definition orElse :: "string option \<Rightarrow> string \<Rightarrow> string" where
  "orElse s d = (case s of None \<Rightarrow> d | Some v \<Rightarrow> if v = [] then d else v)"

text \<open>An \<^verbatim>\<open>await\<close> inside \<^verbatim>\<open>try\<close>: an error leaves the block.\<close>

definition bindE :: "'e + 'a \<Rightarrow> ('a \<Rightarrow> 'e + 'b) \<Rightarrow> 'e + 'b" where
  "bindE m f = (case m of Inl e \<Rightarrow> Inl e | Inr x \<Rightarrow> f x)"

text \<open>\<^verbatim>\<open>args.type === "movie" ? 1 : parseInt(currEp || "1")\<close>\<close>

definition episodeOf :: "string \<Rightarrow> string option \<Rightarrow> int option" where
  "episodeOf type currEp = (if type = ''movie'' then Some 1 else parseInt (orElse currEp ''1''))"

text \<open>
  The first part of the \<^verbatim>\<open>try\<close> block: the three branches on the prefix of
  \<^verbatim>\<open>args.id\<close>, which set \<^verbatim>\<open>anilistId\<close>, \<^verbatim>\<open>animeName\<close> and \<^verbatim>\<open>episode\<close> (initially
  \<^verbatim>\<open>null\<close>, \<^verbatim>\<open>null\<close> and 0).
\<close>

definition identify ::
  "collaborators \<Rightarrow> handlerArgs \<Rightarrow> string + (int option \<times> string option \<times> int option)" where
  "identify env args =
     (let parts = splitOn CHR '':'' (reqId args);
          type = reqType args
      in if prefix ''kitsu:'' (reqId args) then
           bindE (resolveAnilistId env (orElse (element parts 1) []) ''kitsu'') (\<lambda>anilistId.
             Inr (anilistId, None, episodeOf type (element parts 2)))
         else if prefix ''tt'' (reqId args) then
           (let extId = orElse (element parts 0) [] in
            bindE (resolveAnilistId env extId ''imdb'') (\<lambda>anilistId.
              let episode = episodeOf type (element parts 2) in
              if \<not> truthy_num anilistId \<and> enableSearch (config args) \<and> type = ''series'' then
                (let season = parseInt (orElse (element parts 1) ''1'') in
                 bindE (getNameFromCinemetaId env extId type) (\<lambda>animeName.
                   Inr (anilistId,
                        (if truthy_str animeName \<and> (case season of None \<Rightarrow> False | Some n \<Rightarrow> n > 1)
                         then Some (orElse animeName [] @ '' season ''
                                      @ (case season of None \<Rightarrow> [] | Some n \<Rightarrow> numberToString n))
                         else animeName),
                        episode)))
              else if \<not> truthy_num anilistId \<and> type = ''movie'' then
                bindE (getNameFromCinemetaId env extId type) (\<lambda>animeName.
                  Inr (anilistId, animeName, episode))
              else Inr (anilistId, None, episode)))
         else if prefix ''anilist:'' (reqId args) then
           Inr (parseInt (orElse (element parts 1) []), None, episodeOf type (element parts 2))
         else Inr (None, None, Some 0))"

text \<open>
  The whole \<^verbatim>\<open>try\<close> block:
  \<^verbatim>\<open>
  if ((anilistId || animeName) && episode > 0) {
    await handleWatchedEpisode(animeName, anilistId, episode, preAddedOnly, token);
  }
  \<close>
\<close>

definition syncAttempt :: "collaborators \<Rightarrow> handlerArgs \<Rightarrow> string \<Rightarrow> string + unit" where
  "syncAttempt env args tok =
     bindE (identify env args) (\<lambda>(anilistId, animeName, episode).
       if (truthy_num anilistId \<or> truthy_str animeName)
          \<and> (case episode of None \<Rightarrow> False | Some n \<Rightarrow> n > 0)
       then handleWatchedEpisode env animeName anilistId
              (case episode of None \<Rightarrow> 0 | Some n \<Rightarrow> n) (preAddedOnly (config args)) tok
       else Inr ())"

text \<open>
  \<^verbatim>\<open>
  if (!token) {
    // return Promise.resolve({ subtitles: [] });
    return Promise.reject(new Error("Anilist token not configured."));
  }
  try { ... } catch (err) { console.error(...); }
  return Promise.resolve({ subtitles: [] });
  \<close>
\<close>

definition subtitlesHandler :: "collaborators \<Rightarrow> handlerArgs \<Rightarrow> hostResponse" where
  "subtitlesHandler env args =
     (case token (config args) of
        None \<Rightarrow> HandlerRejected ''Anilist token not configured.''
      | Some tok \<Rightarrow>
          if tok = [] then HandlerRejected ''Anilist token not configured.''
          else (case syncAttempt env args tok of
                  Inl err \<Rightarrow> Subtitles []
                | Inr _ \<Rightarrow> Subtitles []))"

text \<open>
  A concrete request, and collaborators of which the synchronization fails.
\<close>

definition failingCollaborators :: collaborators where
  "failingCollaborators =
     \<lparr>resolveAnilistId = (\<lambda>i s. Inr (Some 21)),
      getNameFromCinemetaId = (\<lambda>i t. Inr None),
      handleWatchedEpisode = (\<lambda>n a e p t. Inl ''GraphQL request failed: 500'')\<rparr>"

definition watchEvent :: "string option \<Rightarrow> handlerArgs" where
  "watchEvent tok =
     \<lparr>config = \<lparr>token = tok, enableSearch = False, preAddedOnly = False\<rparr>,
      reqId = ''kitsu:7:3'', reqType = ''series''\<rparr>"

section \<open>The query cache (src/lib/anilist.js, cache and getCachedResult)\<close>

text \<open>
  \<^verbatim>\<open>const cache = new LRU({ max: 500, ttl: 10 * 60 * 1000 });\<close>
  The cache of the lru-cache library, by the behaviour that the library documents. It
  holds at most \<open>cacheMax\<close> entries and an entry is stale once it is older than
  \<open>cacheTtl\<close> milliseconds. \<open>cache\<close> is the value stored for a key, \<open>recency\<close> lists the
  keys of the entries from the least to the most recently used, \<open>starts\<close> is the time at
  which a key was last set and \<open>now\<close> is the clock, in milliseconds.

  The values are promises. A promise is known by the number of its creation; it is in
  flight, with the key that its handlers captured, or settled. \<open>fetchCalls\<close> records
  every call of \<^verbatim>\<open>fetchFn\<close>, by the key it was made for.
\<close>

definition cacheMax :: nat where
  "cacheMax = 500"

definition cacheTtl :: nat where
  "cacheTtl = 10 * 60 * 1000"

datatype 'a promise = Fetching string | Settled "'a settled"

record 'a world =
  cache :: "string \<Rightarrow> nat option"
  recency :: "string list"
  starts :: "string \<Rightarrow> nat"
  now :: nat
  promises :: "'a promise list"
  fetchCalls :: "string list"

text \<open>
  \<^verbatim>\<open>cache.has(key)\<close>: the key has an entry and the entry is not stale. It does not change
  the order of use.
\<close>

definition lruHas :: "'a world \<Rightarrow> string \<Rightarrow> bool" where
  "lruHas w key =
     (case cache w key of
        None \<Rightarrow> False
      | Some _ \<Rightarrow> \<not> (now w - starts w key > cacheTtl))"

text \<open>
  \<^verbatim>\<open>cache.get(key)\<close> on an entry that is not stale makes it the most recently used; its
  age is not renewed.
\<close>

definition lruTouch :: "string \<Rightarrow> 'a world \<Rightarrow> 'a world" where
  "lruTouch key w = w\<lparr>recency := filter (\<lambda>k. k \<noteq> key) (recency w) @ [key]\<rparr>"

text \<open>\<^verbatim>\<open>cache.delete(key)\<close>\<close>

definition lruDelete :: "string \<Rightarrow> 'a world \<Rightarrow> 'a world" where
  "lruDelete key w =
     w\<lparr>cache := (cache w)(key := None), recency := filter (\<lambda>k. k \<noteq> key) (recency w)\<rparr>"

text \<open>The eviction of the least recently used entry.\<close>

definition lruEvict :: "'a world \<Rightarrow> 'a world" where
  "lruEvict w = (case recency w of [] \<Rightarrow> w | oldest # _ \<Rightarrow> lruDelete oldest w)"

text \<open>
  \<^verbatim>\<open>cache.set(key, value)\<close>: a key that has an entry, stale or not, gets the value; for a
  new key the least recently used entry is evicted first when the cache is full. In
  both cases the entry becomes the most recently used and its age starts anew.
\<close>

definition lruSet :: "string \<Rightarrow> nat \<Rightarrow> 'a world \<Rightarrow> 'a world" where
  "lruSet key v w =
     (let w1 = (if cache w key = None \<and> length (recency w) \<ge> cacheMax then lruEvict w else w)
      in w1\<lparr>cache := (cache w1)(key \<mapsto> v),
            recency := filter (\<lambda>k. k \<noteq> key) (recency w1) @ [key],
            starts := (starts w1)(key := now w1)\<rparr>)"

text \<open>\<^verbatim>\<open>cache.clear()\<close>\<close>

definition lruClear :: "'a world \<Rightarrow> 'a world" where
  "lruClear w = w\<lparr>cache := Map.empty, recency := []\<rparr>"

text \<open>
  \<^verbatim>\<open>
  const key = getCacheKey(query, variables);
  if (cache.has(key)) { return cache.get(key); }
  const promise = fetchFn().then(...).catch(...);
  cache.set(key, promise);
  return promise;
  \<close>
  The body has no \<^verbatim>\<open>await\<close>, so one call runs from its first line to its last with
  nothing in between. The result is the promise whose outcome the caller awaits.
\<close>

definition getCachedResult ::
  "string \<Rightarrow> (string \<times> json) list option \<Rightarrow> 'a world \<Rightarrow> nat \<times> 'a world" where
  "getCachedResult query variables w =
     (let key = getCacheKey query variables in
      case (if lruHas w key then cache w key else None) of
        Some cached \<Rightarrow> (cached, lruTouch key w)
      | None \<Rightarrow>
          (let promise = length (promises w) in
           (promise,
            lruSet key promise
              (w\<lparr>fetchCalls := fetchCalls w @ [key],
                 promises := promises w @ [Fetching key]\<rparr>))))"

text \<open>
  The handler of success, run when the fetch of \<open>promise\<close> gives \<open>data\<close>:
  \<^verbatim>\<open>cache.set(key, Promise.resolve(data)); return data;\<close>
\<close>

definition onFulfilled :: "nat \<Rightarrow> 'a \<Rightarrow> 'a world \<Rightarrow> 'a world" where
  "onFulfilled promise data w =
     (if promise < length (promises w)
      then (case promises w ! promise of
              Fetching key \<Rightarrow>
                lruSet key (length (promises w))
                  (w\<lparr>promises := (promises w)[promise := Settled (Resolved data)]
                                    @ [Settled (Resolved data)]\<rparr>)
            | Settled _ \<Rightarrow> w)
      else w)"

text \<open>
  The handler of failure, run when the fetch of \<open>promise\<close> fails with \<open>err\<close>:
  \<^verbatim>\<open>cache.delete(key); console.error(...); throw err;\<close>
\<close>

definition onRejected :: "nat \<Rightarrow> string \<Rightarrow> 'a world \<Rightarrow> 'a world" where
  "onRejected promise err w =
     (if promise < length (promises w)
      then (case promises w ! promise of
              Fetching key \<Rightarrow>
                lruDelete key (w\<lparr>promises := (promises w)[promise := Settled (Rejected err)]\<rparr>)
            | Settled _ \<Rightarrow> w)
      else w)"


text \<open>The state of a process that has made no request yet.\<close>

definition freshWorld :: "string world" where
  "freshWorld =
     \<lparr>cache = Map.empty, recency = [], starts = (\<lambda>k. 0), now = 0, promises = [],
      fetchCalls = []\<rparr>"

text \<open>
  What can happen to the cache while requests are in flight: a call of
  \<^verbatim>\<open>getCachedResult\<close>; the run of the handler of success or of failure of a promise;
  the \<^verbatim>\<open>cache.clear()\<close> that \<^verbatim>\<open>updateAnilistProgress\<close> runs before it sends a progress
  write; and the passing of time. Each is one uninterrupted step of the event loop; a
  run is a sequence of them. Eviction happens inside the steps that set an entry, expiry
  shows at the next \<^verbatim>\<open>cache.has\<close>.
\<close>

datatype 'a event =
    Call string "(string \<times> json) list option"
  | Fulfil nat 'a
  | Reject nat string
  | Clear
  | Tick nat

definition step :: "'a event \<Rightarrow> 'a world \<Rightarrow> 'a world" where
  "step e w =
     (case e of
        Call query variables \<Rightarrow> snd (getCachedResult query variables w)
      | Fulfil promise data \<Rightarrow> onFulfilled promise data w
      | Reject promise err \<Rightarrow> onRejected promise err w
      | Clear \<Rightarrow> lruClear w
      | Tick ms \<Rightarrow> w\<lparr>now := now w + ms\<rparr>)"

fun run :: "'a event list \<Rightarrow> 'a world \<Rightarrow> 'a world" where
  "run [] w = w"
| "run (e # es) w = run es (step e w)"






text \<open>
  The time that passes in a run, and the number of its steps that can add an entry to
  the cache (a call, a handler of success).
\<close>

definition elapsedAt :: "'a event \<Rightarrow> nat" where
  "elapsedAt e = (case e of Tick ms \<Rightarrow> ms | _ \<Rightarrow> 0)"

definition insertsAt :: "'a event \<Rightarrow> nat" where
  "insertsAt e = (case e of Call _ _ \<Rightarrow> 1 | Fulfil _ _ \<Rightarrow> 1 | _ \<Rightarrow> 0)"

definition elapsed :: "'a event list \<Rightarrow> nat" where
  "elapsed es = sum_list (map elapsedAt es)"

definition inserts :: "'a event list \<Rightarrow> nat" where
  "inserts es = sum_list (map insertsAt es)"




section \<open>Properties of progress reconciliation\<close>

text \<open>
  Claim C4. No write is issued when the target progress (1 for a single-unit work, else
  the observed episode number) is at most the current progress, and none is issued when
  the work is multi-unit, its total episode count is known and the target progress
  exceeds that total. This holds whatever the entry's status and whatever value the
  global \<^verbatim>\<open>newStatus\<close> holds.
\<close>

theorem updateAnilistProgress_no_write:
  "(targetProgress e ep \<le> currentProgress e
      \<longrightarrow> fst (updateAnilistProgress g mediaId ep (Some (Found e))) = NoWrite) \<and>
   (\<not> isMovie e \<and> totalEpisodes e = Some t \<and> targetProgress e ep > t
      \<longrightarrow> fst (updateAnilistProgress g mediaId ep (Some (Found e))) = NoWrite)"
  by (simp add: updateAnilistProgress_def targetProgress_def Let_def)

theorem updateAnilistProgress_no_write_witness:
  "targetProgress \<lparr>currentProgress = 5, currentStatus = Some ''CURRENT'',
                    totalEpisodes = Some 12, isMovie = False\<rparr> 5 \<le> 5 \<and>
   fst (updateAnilistProgress None 7 5
          (Some (Found \<lparr>currentProgress = 5, currentStatus = Some ''CURRENT'',
                         totalEpisodes = Some 12, isMovie = False\<rparr>))) = NoWrite \<and>
   targetProgress \<lparr>currentProgress = 5, currentStatus = Some ''CURRENT'',
                    totalEpisodes = Some 12, isMovie = False\<rparr> 13 > 12 \<and>
   fst (updateAnilistProgress None 7 13
          (Some (Found \<lparr>currentProgress = 5, currentStatus = Some ''CURRENT'',
                         totalEpisodes = Some 12, isMovie = False\<rparr>))) = NoWrite"
  using updateAnilistProgress_no_write
    [of "\<lparr>currentProgress = 5, currentStatus = Some ''CURRENT'',
          totalEpisodes = Some 12, isMovie = False\<rparr>" 5 None 7 12]
    updateAnilistProgress_no_write
    [of "\<lparr>currentProgress = 5, currentStatus = Some ''CURRENT'',
          totalEpisodes = Some 12, isMovie = False\<rparr>" 13 None 7 12]
  by (simp add: targetProgress_def)

text \<open>
  The demotion is dead code: when the entry is "COMPLETED", either the first branch or
  the copy of \<^verbatim>\<open>currentStatus\<close> has just set \<^verbatim>\<open>newStatus\<close> to "COMPLETED", so the test
  \<^verbatim>\<open>newStatus !== "COMPLETED"\<close> fails. No call writes "CURRENT" for such an entry.
\<close>

lemma completed_never_demoted:
  assumes "currentStatus e = Some ''COMPLETED''"
  shows "fst (updateAnilistProgress g mediaId ep (Some (Found e)))
           \<in> {NoWrite, SaveMediaListEntry mediaId (targetProgress e ep) ''COMPLETED''}"
  using assms
  by (simp add: updateAnilistProgress_def assignStatus_def demoteStatus_def truthy_str_def
        targetProgress_def Let_def)

text \<open>
  Claim C2. The claim demotes a "COMPLETED" entry to "CURRENT" when a written progress is
  still below the total, and otherwise preserves the current status. The code does
  neither in these runs: an entry that is "COMPLETED" at 12 episodes, of a work that now
  has 24, and is moved to episode 13 is written back as "COMPLETED"; an entry that is
  "CURRENT" at 5 of 12 and is moved to episode 8 gets no assignment to \<^verbatim>\<open>newStatus\<close> at
  all, so building the variables raises \<^verbatim>\<open>ReferenceError\<close> in a fresh process and nothing
  is written, and after an earlier call that completed another work the write carries
  that call's "COMPLETED".
\<close>

theorem updateAnilistProgress_status_divergence:
  "updateAnilistProgress None 7 13
     (Some (Found \<lparr>currentProgress = 12, currentStatus = Some ''COMPLETED'',
                    totalEpisodes = Some 24, isMovie = False\<rparr>))
     = (SaveMediaListEntry 7 13 ''COMPLETED'', Some ''COMPLETED'') \<and>
   updateAnilistProgress None 7 8
     (Some (Found \<lparr>currentProgress = 5, currentStatus = Some ''CURRENT'',
                    totalEpisodes = Some 12, isMovie = False\<rparr>))
     = (ReferenceError, None) \<and>
   updateAnilistProgress (Some ''COMPLETED'') 7 8
     (Some (Found \<lparr>currentProgress = 5, currentStatus = Some ''CURRENT'',
                    totalEpisodes = Some 12, isMovie = False\<rparr>))
     = (SaveMediaListEntry 7 8 ''COMPLETED'', Some ''COMPLETED'')"
  by (simp add: updateAnilistProgress_def assignStatus_def demoteStatus_def truthy_str_def)

section \<open>Properties of logo selection\<close>














section \<open>Properties of cache keys\<close>

lemma map_of_serialized:
  "map_of (map (\<lambda>kv. (fst kv, f (snd kv))) kvs) k = map_option f (map_of kvs k)"
  by (induction kvs) auto

lemma serializeJSON_object_fields:
  assumes "map_of a = map_of b"
  shows "serializeJSON (Some wl) (JObj a) = serializeJSON (Some wl) (JObj b)"
proof -
  let ?f = "\<lambda>v. if v = JUndefined then None else Some (serializeJSON (Some wl) v)"
  have m: "map_of (map (\<lambda>kv. (fst kv, ?f (snd kv))) kvs) k = map_option ?f (map_of kvs k)"
    for kvs k by (rule map_of_serialized)
  have "member (map (\<lambda>kv. (fst kv, ?f (snd kv))) a) = member (map (\<lambda>kv. (fst kv, ?f (snd kv))) b)"
    by (rule ext) (simp only: member_def m assms)
  then show ?thesis
    by (simp add: propertyList_def)
qed

lemma sorted_keys_eq:
  fixes a b :: "(string \<times> 'v) list"
  assumes "distinct (map fst a)" "distinct (map fst b)" "set a = set b"
  shows "sort (map fst a) = sort (map fst b)"
proof (rule sorted_distinct_set_unique)
  show "set (sort (map fst a)) = set (sort (map fst b))"
    using assms(3) by simp
qed (use assms in simp_all)

text \<open>
  Claim C3. For any query, two parameter objects that hold the same field-value pairs,
  in whatever field order, get the same cache key.
\<close>

theorem getCacheKey_order_independent:
  assumes "distinct (map fst a)" and "distinct (map fst b)" and "set a = set b"
  shows "getCacheKey query (Some a) = getCacheKey query (Some b)"
proof -
  have "map_of a = map_of b"
    using assms by (simp add: map_of_inject_set)
  then have "serializeJSON (Some (sort (map fst b))) (JObj a)
           = serializeJSON (Some (sort (map fst b))) (JObj b)"
    by (rule serializeJSON_object_fields)
  moreover have "sort (map fst a) = sort (map fst b)"
    using assms by (rule sorted_keys_eq)
  ultimately show ?thesis
    by (simp add: getCacheKey_def)
qed

theorem getCacheKey_order_independent_witness:
  "distinct (map fst [(''userId'', JNum 42), (''page'', JNum 1)]) \<and>
   distinct (map fst [(''page'', JNum 1), (''userId'', JNum 42)]) \<and>
   set [(''userId'', JNum 42), (''page'', JNum 1)] = set [(''page'', JNum 1), (''userId'', JNum 42)] \<and>
   [(''userId'', JNum 42), (''page'', JNum 1)] \<noteq> [(''page'', JNum 1), (''userId'', JNum 42)] \<and>
   getCacheKey ''query { Viewer { id } }'' (Some [(''userId'', JNum 42), (''page'', JNum 1)])
     = getCacheKey ''query { Viewer { id } }'' (Some [(''page'', JNum 1), (''userId'', JNum 42)])"
proof -
  have d1: "distinct (map fst [(''userId'', JNum 42), (''page'', JNum 1)])" by simp
  have d2: "distinct (map fst [(''page'', JNum 1), (''userId'', JNum 42)])" by simp
  have s: "set [(''userId'', JNum 42), (''page'', JNum 1)]
         = set [(''page'', JNum 1), (''userId'', JNum 42)]" by auto
  from getCacheKey_order_independent [OF d1 d2 s, of "''query { Viewer { id } }''"] d1 d2 s
  show ?thesis by simp
qed

section \<open>Properties of the durable mapping store\<close>

lemma columns_all: "c \<in> set columns"
  by (cases c) (simp_all add: columns_def)

lemma unique_msg: "sublist ''UNIQUE constraint failed'' (uniqueFailed c)"
proof -
  have "uniqueFailed c
          = ''SQLITE_CONSTRAINT: '' @ ''UNIQUE constraint failed'' @ ('': ids.'' @ columnName c)"
    by (simp add: uniqueFailed_def)
  then show ?thesis
    unfolding sublist_def by blast
qed

lemma col_setCol: "col c' (setCol c x r) = (if c' = c then Some x else col c' r)"
  by (cases c; cases c') (simp_all add: col_def setCol_def)

lemma anilist_setCol [simp]: "anilist (setCol c x r) = anilist r"
  by (cases c) (simp_all add: setCol_def)

lemma col_newRow [simp]: "col c (newRow a) = None"
  by (cases c) (simp_all add: col_def newRow_def)

lemma anilist_newRow [simp]: "anilist (newRow a) = a"
  by (simp add: newRow_def)


lemma upsert_conflict_unchanged:
  assumes "r \<in> set t" and "col c r = Some x" and "anilist r \<noteq> a"
  shows "runUpsert c a x t = Inl (uniqueFailed c) \<or> runUpsert c a x t = Inr t"
  using assms by (auto simp: runUpsert_def split: option.splits)

lemma cacheToDatabase_conflict:
  assumes "validSource source = Some c" and "r \<in> set t" and "col c r = Some x"
    and "anilist r \<noteq> a"
  shows "cacheToDatabase None a x source t = (Resolved (), t)"
  using upsert_conflict_unchanged [OF assms(2-4)] assms(1)
  by (auto simp: cacheToDatabase_def unique_msg)

lemma cacheToDatabase_cases:
  "snd (cacheToDatabase fault a x source t) = t \<or>
   (\<exists>c. validSource source = Some c \<and> runUpsert c a x t = Inr (snd (cacheToDatabase fault a x source t)))"
  by (auto simp: cacheToDatabase_def split: option.splits sum.splits)

lemma find_anilist_None: "find (\<lambda>r. anilist r = a) t = None \<Longrightarrow> a \<notin> anilist ` set t"
  by (auto simp: find_None_iff)

lemma storeInvariantI:
  assumes "distinct (map anilist t)"
    and "\<And>c r1 r2 y. r1 \<in> set t \<Longrightarrow> r2 \<in> set t \<Longrightarrow> col c r1 = Some y \<Longrightarrow> col c r2 = Some y
           \<Longrightarrow> anilist r1 = anilist r2"
  shows "storeInvariant t"
  unfolding storeInvariant_def using assms by fastforce

lemma storeInvariantD:
  assumes "storeInvariant t" and "r1 \<in> set t" and "r2 \<in> set t"
    and "col c r1 = Some y" and "col c r2 = Some y"
  shows "anilist r1 = anilist r2"
  using assms columns_all [of c] unfolding storeInvariant_def by fastforce

lemma storeInvariant_distinct: "storeInvariant t \<Longrightarrow> distinct (map anilist t)"
  by (simp add: storeInvariant_def)

lemma storeInvariant_insert:
  assumes inv: "storeInvariant t" and fresh: "a \<notin> anilist ` set t"
    and unused: "\<forall>r\<in>set t. col c r \<noteq> Some x"
  shows "storeInvariant (t @ [setCol c x (newRow a)])"
proof (rule storeInvariantI)
  show "distinct (map anilist (t @ [setCol c x (newRow a)]))"
    using storeInvariant_distinct [OF inv] fresh by simp
next
  fix c' r1 r2 y
  assume r1: "r1 \<in> set (t @ [setCol c x (newRow a)])"
    and r2: "r2 \<in> set (t @ [setCol c x (newRow a)])"
    and c1: "col c' r1 = Some y" and c2: "col c' r2 = Some y"
  let ?n = "setCol c x (newRow a)"
  have n: "c' = c \<and> y = x" if "col c' ?n = Some y"
    using that by (simp add: col_setCol split: if_splits)
  show "anilist r1 = anilist r2"
  proof (cases "r1 = ?n")
    case True
    with c1 n have e: "c' = c" "y = x" by auto
    with c2 unused r2 have "r2 = ?n" by auto
    with True show ?thesis by simp
  next
    case False
    with r1 have m1: "r1 \<in> set t" by simp
    show ?thesis
    proof (cases "r2 = ?n")
      case True
      with c2 n have "c' = c" "y = x" by auto
      with c1 unused m1 show ?thesis by auto
    next
      case False
      with r2 have "r2 \<in> set t" by simp
      then show ?thesis using storeInvariantD [OF inv m1 _ c1 c2] by simp
    qed
  qed
qed

lemma storeInvariant_update:
  assumes inv: "storeInvariant t"
    and unused: "\<forall>r'\<in>set t. anilist r' \<noteq> a \<longrightarrow> col c r' \<noteq> Some x"
  shows "storeInvariant (map (\<lambda>r'. if anilist r' = a then setCol c x r' else r') t)"
proof (rule storeInvariantI)
  let ?u = "\<lambda>r'. if anilist r' = a then setCol c x r' else r'"
  have k: "map anilist (map ?u t) = map anilist t"
    by (induction t) auto
  show "distinct (map anilist (map ?u t))"
    using storeInvariant_distinct [OF inv] by (simp only: k)
  fix c' r1 r2 y
  assume "r1 \<in> set (map ?u t)" and "r2 \<in> set (map ?u t)"
  then obtain s1 s2 where s1: "s1 \<in> set t" "r1 = ?u s1" and s2: "s2 \<in> set t" "r2 = ?u s2"
    by auto
  assume c1: "col c' r1 = Some y" and c2: "col c' r2 = Some y"
  have a12: "anilist r1 = anilist s1" "anilist r2 = anilist s2"
    using s1 s2 by simp_all
  show "anilist r1 = anilist r2"
  proof (cases "c' = c \<and> y = x")
    case True
    have "anilist s = a" if "s \<in> set t" "col c (?u s) = Some x" for s
    proof (rule ccontr)
      assume "anilist s \<noteq> a"
      with that unused show False by auto
    qed
    moreover from c1 c2 s1(2) s2(2) True
    have "col c (?u s1) = Some x" "col c (?u s2) = Some x" by simp_all
    ultimately have "anilist s1 = a" "anilist s2 = a"
      using s1(1) s2(1) by blast+
    with a12 show ?thesis by simp
  next
    case False
    have keep: "col c' s = Some y" if "col c' (?u s) = Some y" for s
      using that False by (auto simp: col_setCol split: if_splits)
    from c1 c2 s1(2) s2(2) have u: "col c' (?u s1) = Some y" "col c' (?u s2) = Some y"
      by simp_all
    have "col c' s1 = Some y" "col c' s2 = Some y"
      by (rule keep [OF u(1)], rule keep [OF u(2)])
    then have "anilist s1 = anilist s2" using storeInvariantD [OF inv s1(1) s2(1)] by simp
    with a12 show ?thesis by simp
  qed
qed

lemma runUpsert_invariant:
  assumes inv: "storeInvariant t" and run: "runUpsert c a x t = Inr t'"
  shows "storeInvariant t'"
proof (cases "find (\<lambda>r. anilist r = a) t")
  case None
  then have fresh: "a \<notin> anilist ` set t"
    by (rule find_anilist_None)
  show ?thesis
  proof (cases "\<exists>r\<in>set t. col c r = Some x")
    case True
    with None run show ?thesis by (simp add: runUpsert_def)
  next
    case False
    with None run have "t' = t @ [setCol c x (newRow a)]"
      by (simp add: runUpsert_def)
    moreover have "\<forall>r\<in>set t. col c r \<noteq> Some x"
      using False by blast
    ultimately show ?thesis using storeInvariant_insert [OF inv fresh] by simp
  qed
next
  case (Some r)
  show ?thesis
  proof (cases "col c r = None \<or> col c r \<noteq> Some x")
    case False
    with Some run have "t' = t" by (simp add: runUpsert_def)
    with inv show ?thesis by simp
  next
    case w: True
    show ?thesis
    proof (cases "\<exists>r'\<in>set t. anilist r' \<noteq> a \<and> col c r' = Some x")
      case True
      with Some w run show ?thesis by (simp add: runUpsert_def)
    next
      case False
      with Some w run
      have "t' = map (\<lambda>r'. if anilist r' = a then setCol c x r' else r') t"
        by (simp add: runUpsert_def)
      moreover have "\<forall>r'\<in>set t. anilist r' \<noteq> a \<longrightarrow> col c r' \<noteq> Some x"
        using False by blast
      ultimately show ?thesis using storeInvariant_update [OF inv] by simp
    qed
  qed
qed

lemma cacheToDatabase_invariant:
  "storeInvariant t \<Longrightarrow> storeInvariant (snd (cacheToDatabase fault a x source t))"
  using cacheToDatabase_cases [of fault a x source t] runUpsert_invariant
  by auto


text \<open>
  Claim C7. When an alternate-scheme value is already mapped to a canonical id, an upsert
  that maps the same value to a different canonical id resolves (no error is surfaced) and
  leaves the store, so the mapping, as it was. Every upsert, of any outcome, preserves
  the invariant that an alternate-scheme value maps to one canonical id at most.
\<close>

theorem cacheToDatabase_conflict_keeps_mapping:
  "(validSource source = Some c \<and> r \<in> set t \<and> col c r = Some x \<and> anilist r \<noteq> a
      \<longrightarrow> cacheToDatabase None a x source t = (Resolved (), t)) \<and>
   (storeInvariant t \<longrightarrow> storeInvariant (snd (cacheToDatabase fault a x source t)))"
proof (intro conjI impI)
  assume "validSource source = Some c \<and> r \<in> set t \<and> col c r = Some x \<and> anilist r \<noteq> a"
  then show "cacheToDatabase None a x source t = (Resolved (), t)"
    using cacheToDatabase_conflict [of source c r t x a] by simp
next
  assume "storeInvariant t"
  then show "storeInvariant (snd (cacheToDatabase fault a x source t))"
    by (rule cacheToDatabase_invariant)
qed

theorem cacheToDatabase_conflict_keeps_mapping_witness:
  "storeInvariant [(newRow 1)\<lparr>kitsu := Some ''77''\<rparr>] \<and>
   cacheToDatabase None 5 ''77'' ''kitsu'' [(newRow 1)\<lparr>kitsu := Some ''77''\<rparr>]
     = (Resolved (), [(newRow 1)\<lparr>kitsu := Some ''77''\<rparr>]) \<and>
   storeInvariant (snd (cacheToDatabase None 5 ''78'' ''kitsu'' [(newRow 1)\<lparr>kitsu := Some ''77''\<rparr>])) \<and>
   snd (cacheToDatabase None 5 ''78'' ''kitsu'' [(newRow 1)\<lparr>kitsu := Some ''77''\<rparr>])
     = [(newRow 1)\<lparr>kitsu := Some ''77''\<rparr>, (newRow 5)\<lparr>kitsu := Some ''78''\<rparr>]"
proof -
  let ?t = "[(newRow 1)\<lparr>kitsu := Some ''77''\<rparr>]"
  have inv: "storeInvariant ?t"
    by (simp add: storeInvariant_def)
  have a: "cacheToDatabase None 5 ''77'' ''kitsu'' ?t = (Resolved (), ?t)"
    using cacheToDatabase_conflict_keeps_mapping
            [of "''kitsu''" Kitsu "(newRow 1)\<lparr>kitsu := Some ''77''\<rparr>" ?t "''77''" 5]
    by (simp add: validSource_def col_def newRow_def)
  have b: "storeInvariant (snd (cacheToDatabase None 5 ''78'' ''kitsu'' ?t))"
    using cacheToDatabase_conflict_keeps_mapping
            [where t = ?t and a = 5 and x = "''78''" and source = "''kitsu''" and fault = None]
          inv
    by blast
  have c: "snd (cacheToDatabase None 5 ''78'' ''kitsu'' ?t)
             = [(newRow 1)\<lparr>kitsu := Some ''77''\<rparr>, (newRow 5)\<lparr>kitsu := Some ''78''\<rparr>]"
    by (simp add: cacheToDatabase_def validSource_def runUpsert_def col_def setCol_def newRow_def)
  from inv a b c show ?thesis by blast
qed

section \<open>Properties of identifier resolution\<close>
















section \<open>Properties of the request gateway\<close>










section \<open>Properties of the watch-event handler\<close>

text \<open>
  Claim C9, as the code has it. A request whose configuration holds a token is answered
  with an empty list of subtitles, whatever the collaborators do and also when the
  synchronization fails. A request without a token is rejected with the error
  "Anilist token not configured.".
\<close>

theorem subtitlesHandler_response:
  "(truthy_str (token (config args)) \<longrightarrow> subtitlesHandler env args = Subtitles []) \<and>
   (\<not> truthy_str (token (config args))
      \<longrightarrow> subtitlesHandler env args = HandlerRejected ''Anilist token not configured.'')"
  by (auto simp: subtitlesHandler_def truthy_str_def split: option.splits sum.splits)

theorem subtitlesHandler_response_witness:
  "truthy_str (token (config (watchEvent (Some ''abc'')))) \<and>
   syncAttempt failingCollaborators (watchEvent (Some ''abc'')) ''abc''
     = Inl ''GraphQL request failed: 500'' \<and>
   subtitlesHandler failingCollaborators (watchEvent (Some ''abc'')) = Subtitles [] \<and>
   \<not> truthy_str (token (config (watchEvent (Some [])))) \<and>
   subtitlesHandler failingCollaborators (watchEvent (Some []))
     = HandlerRejected ''Anilist token not configured.''"
proof -
  have t: "truthy_str (token (config (watchEvent (Some ''abc''))))"
    and n: "\<not> truthy_str (token (config (watchEvent (Some []))))"
    by (simp_all add: truthy_str_def watchEvent_def)
  have p: "parseInt ''3'' = Some 3"
    by code_simp
  have s: "splitOn CHR '':'' ''kitsu:7:3'' = [''kitsu'', ''7'', ''3'']"
    by simp
  have a: "syncAttempt failingCollaborators (watchEvent (Some ''abc'')) ''abc''
             = Inl ''GraphQL request failed: 500''"
    by (simp add: syncAttempt_def identify_def watchEvent_def failingCollaborators_def bindE_def
          episodeOf_def element_def orElse_def truthy_num_def p s)
  have b: "subtitlesHandler failingCollaborators (watchEvent (Some ''abc'')) = Subtitles []"
    using subtitlesHandler_response [of "watchEvent (Some ''abc'')" failingCollaborators] t
    by blast
  have c: "subtitlesHandler failingCollaborators (watchEvent (Some []))
             = HandlerRejected ''Anilist token not configured.''"
    using subtitlesHandler_response [of "watchEvent (Some [])" failingCollaborators] n
    by blast
  show ?thesis
    by (intro conjI t a b n c)
qed

text \<open>
  Claim C9, as it is stated, fails: a watch-event request without a token is not
  answered with an empty list of subtitles, the handler rejects it.
\<close>

theorem subtitlesHandler_without_token:
  "subtitlesHandler failingCollaborators (watchEvent None) \<noteq> Subtitles []"
  by (simp add: subtitlesHandler_def watchEvent_def)

section \<open>Properties of the query cache\<close>

lemma lruEvict_fields [simp]:
  "now (lruEvict w) = now w" "starts (lruEvict w) = starts w"
  "promises (lruEvict w) = promises w" "fetchCalls (lruEvict w) = fetchCalls w"
  by (simp_all add: lruEvict_def lruDelete_def split: list.splits)



lemma lruSet_fields [simp]:
  "now (lruSet key v w) = now w" "promises (lruSet key v w) = promises w"
  "fetchCalls (lruSet key v w) = fetchCalls w"
  by (simp_all add: lruSet_def Let_def)

lemma lruSet_same [simp]:
  "cache (lruSet key v w) key = Some v" "starts (lruSet key v w) key = now w"
  by (simp_all add: lruSet_def Let_def)





lemma lruDelete_fields [simp]:
  "now (lruDelete key w) = now w" "starts (lruDelete key w) = starts w"
  "promises (lruDelete key w) = promises w" "fetchCalls (lruDelete key w) = fetchCalls w"
  "cache (lruDelete key w) = (cache w)(key := None)"
  by (simp_all add: lruDelete_def)


lemma lruTouch_fields [simp]:
  "now (lruTouch key w) = now w" "starts (lruTouch key w) = starts w"
  "promises (lruTouch key w) = promises w" "fetchCalls (lruTouch key w) = fetchCalls w"
  "cache (lruTouch key w) = cache w"
  by (simp_all add: lruTouch_def)


lemma lruHas_touch [simp]: "lruHas (lruTouch key w) k = lruHas w k"
  by (simp add: lruHas_def split: option.splits)




lemma getCachedResult_miss:
  assumes "\<not> lruHas w (getCacheKey query variables)"
  shows "getCachedResult query variables w =
     (length (promises w),
      lruSet (getCacheKey query variables) (length (promises w))
        (w\<lparr>fetchCalls := fetchCalls w @ [getCacheKey query variables],
           promises := promises w @ [Fetching (getCacheKey query variables)]\<rparr>))"
  using assms by (simp add: getCachedResult_def Let_def)




lemma elapsed_Cons [simp]: "elapsed (e # es) = elapsedAt e + elapsed es"
  by (simp add: elapsed_def)

lemma inserts_Cons [simp]: "inserts (e # es) = insertsAt e + inserts es"
  by (simp add: inserts_def)























text \<open>
  Eviction reaches entries in flight as well: when the cache is full and the entry of
  \<open>key\<close> is the least recently used, a call for a key that has no entry removes it.
\<close>

lemma call_evicts_oldest:
  assumes "recency w = key # older" and "length (recency w) \<ge> cacheMax"
    and "cache w (getCacheKey query variables) = None" and "getCacheKey query variables \<noteq> key"
  shows "cache (snd (getCachedResult query variables w)) key = None"
  using assms
  by (simp add: getCachedResult_def lruHas_def lruSet_def lruEvict_def lruDelete_def Let_def)


text \<open>
  Claim C8. When the fetch made for a key fails, the handler of failure leaves no entry
  for that key in the cache: the promise in flight is removed and the error is stored
  nowhere in the cache. So the next call with that key calls \<^verbatim>\<open>fetchFn\<close> again.
\<close>

theorem getCachedResult_failure_not_cached:
  assumes "promise < length (promises w)"
    and "promises w ! promise = Fetching (getCacheKey query variables)"
  shows "cache (onRejected promise err w) (getCacheKey query variables) = None
       \<and> promises (onRejected promise err w) ! promise = Settled (Rejected err)
       \<and> fetchCalls (snd (getCachedResult query variables (onRejected promise err w)))
           = fetchCalls w @ [getCacheKey query variables]"
proof -
  let ?w = "onRejected promise err w"
  have r: "?w = lruDelete (getCacheKey query variables)
                  (w\<lparr>promises := (promises w)[promise := Settled (Rejected err)]\<rparr>)"
    using assms by (simp add: onRejected_def)
  have c: "cache ?w (getCacheKey query variables) = None"
    and p: "promises ?w ! promise = Settled (Rejected err)"
    and f: "fetchCalls ?w = fetchCalls w"
    using assms(1) by (simp_all add: r)
  from c have "\<not> lruHas ?w (getCacheKey query variables)"
    by (simp add: lruHas_def)
  then have "fetchCalls (snd (getCachedResult query variables ?w))
               = fetchCalls ?w @ [getCacheKey query variables]"
    by (simp add: getCachedResult_miss)
  with c p f show ?thesis by simp
qed

theorem getCachedResult_failure_not_cached_witness:
  "0 < length (promises (snd (getCachedResult ''q'' None freshWorld))) \<and>
   promises (snd (getCachedResult ''q'' None freshWorld)) ! 0 = Fetching (getCacheKey ''q'' None) \<and>
   cache (snd (getCachedResult ''q'' None freshWorld)) (getCacheKey ''q'' None) = Some 0 \<and>
   cache (onRejected 0 ''timeout'' (snd (getCachedResult ''q'' None freshWorld)))
     (getCacheKey ''q'' None) = None \<and>
   fetchCalls (snd (getCachedResult ''q'' None
                      (onRejected 0 ''timeout'' (snd (getCachedResult ''q'' None freshWorld)))))
     = [getCacheKey ''q'' None, getCacheKey ''q'' None]"
proof -
  let ?w1 = "snd (getCachedResult ''q'' None freshWorld)"
  have n: "\<not> lruHas freshWorld (getCacheKey ''q'' None)"
    by (simp add: freshWorld_def lruHas_def)
  have a: "0 < length (promises ?w1)"
    and b: "promises ?w1 ! 0 = Fetching (getCacheKey ''q'' None)"
    and c: "cache ?w1 (getCacheKey ''q'' None) = Some 0"
    and d: "fetchCalls ?w1 = [getCacheKey ''q'' None]"
    using n by (simp_all add: getCachedResult_miss) (simp_all add: freshWorld_def)
  from getCachedResult_failure_not_cached [OF a b, of "''timeout''"] a b c d show ?thesis
    by simp
qed

end
